theory Spec2Isabelle
  imports Main "HOL-Library.Word"
begin

section \<open>Encryption and decryption properties of parquet/properties.h\<close>

text \<open>
  The classes of \<^verbatim>\<open>src/parquet/properties.h\<close> that configure encryption:
  \<^verbatim>\<open>ColumnEncryptionProperties\<close>, \<^verbatim>\<open>FileDecryptionProperties\<close> and
  \<^verbatim>\<open>FileEncryptionProperties\<close>. A C++ \<^verbatim>\<open>std::string\<close> is a \<open>string\<close> (a list of
  8-bit characters), a class is a record of its private members, a member function takes
  the object and returns it updated, and every \<^verbatim>\<open>throw\<close> is a value of \<open>error\<close>.
\<close>

subsection \<open>Errors\<close>

datatype error =
    ParquetException string  \<comment> \<open>\<^verbatim>\<open>throw ParquetException(msg)\<close>\<close>
  | out_of_range             \<comment> \<open>\<^verbatim>\<open>std::out_of_range\<close>, thrown by \<^verbatim>\<open>std::map::at\<close> on a missing key\<close>
  | CheckFailure             \<comment> \<open>a \<^verbatim>\<open>DCHECK\<close> whose condition is false, in a build that keeps them: the process aborts\<close>
  | NullPointer              \<comment> \<open>\<^verbatim>\<open>->\<close> on a \<^verbatim>\<open>shared_ptr\<close> that owns no object (undefined in C++; the model stops)\<close>
  | InvalidDelete            \<comment> \<open>\<^verbatim>\<open>delete\<close> of an address that no \<^verbatim>\<open>new\<close> has returned, or a second \<^verbatim>\<open>delete\<close> (undefined in C++; the model stops)\<close>

text \<open>
  \<^verbatim>\<open>DCHECK\<close> comes from \<^verbatim>\<open>parquet/util/logging.h\<close>, which \<^verbatim>\<open>properties.h\<close> only includes.
  It is a debug assertion: a build that keeps assertions aborts when the condition is
  false, a release build compiles the check away. Which build it is, is the first
  argument of every function that has a \<^verbatim>\<open>DCHECK\<close>.
\<close>

definition DCHECK :: "bool \<Rightarrow> bool \<Rightarrow> bool" where
  \<comment> \<open>\<open>DCHECK dchecks c\<close> holds when execution goes on after the check.\<close>
  "DCHECK dchecks c = (if dchecks then c else True)"

subsection \<open>Column paths\<close>

text \<open>
  Modelled from the spec: \<^verbatim>\<open>schema::ColumnPath::ToDotString\<close>, declared in
  \<^verbatim>\<open>parquet/schema.h\<close>. The spec calls it the canonical dotted-string form of a column
  path: the path's segments, joined by dots.
\<close>

fun ToDotString :: "string list \<Rightarrow> string" where
  "ToDotString [] = []"
| "ToDotString [s] = s"
| "ToDotString (s # t # ss) = s @ ''.'' @ ToDotString (t # ss)"

subsection \<open>ColumnEncryptionProperties\<close>

record ColumnEncryptionProperties =
  encrypt :: bool
  path :: string
  encrypted_with_footer_key :: bool
  key :: string
  key_metadata :: string

definition ColumnEncryptionProperties_ctor :: "bool \<Rightarrow> string \<Rightarrow> ColumnEncryptionProperties" where
  \<comment> \<open>\<^verbatim>\<open>ColumnEncryptionProperties(bool encrypt, std::string path)\<close>; the two strings start empty.\<close>
  "ColumnEncryptionProperties_ctor e p =
     \<lparr>encrypt = e, path = p, encrypted_with_footer_key = e,
      key = [], key_metadata = []\<rparr>"

text \<open>
  A member function that may throw after it has started to change the object returns
  \<open>Inl (e, this')\<close>: the exception and the object as the exception leaves it.
\<close>

definition SetEncryptionKey ::
  "ColumnEncryptionProperties \<Rightarrow> string \<Rightarrow> string
     \<Rightarrow> (error \<times> ColumnEncryptionProperties) + ColumnEncryptionProperties" where
  "SetEncryptionKey this k md =
     (if \<not> encrypt this
        then Inl (ParquetException (''Setting key on unencrypted column: '' @ path this), this)
      else if k = []
        then Inl (ParquetException (''Null key for '' @ path this), this)
      else Inr (this\<lparr>encrypted_with_footer_key := False, key := k,
                     key_metadata := md\<rparr>))"

text \<open>
  \<^verbatim>\<open>std::string(reinterpret_cast<char*>(&key_id), 4)\<close>: the four bytes of the
  \<^verbatim>\<open>uint32_t\<close> as they lie in memory, lowest byte first on a little-endian machine and
  highest byte first on a big-endian one. The byte order of the machine is the first
  argument.
\<close>

definition key_id_byte :: "32 word \<Rightarrow> nat \<Rightarrow> char" where
  "key_id_byte key_id i = char_of (unat (drop_bit (8 * i) key_id))"

definition key_id_bytes :: "bool \<Rightarrow> 32 word \<Rightarrow> string" where
  "key_id_bytes big_endian key_id =
     (if big_endian then map (key_id_byte key_id) [3, 2, 1, 0]
      else map (key_id_byte key_id) [0, 1, 2, 3])"

definition key_id_of_bytes :: "bool \<Rightarrow> string \<Rightarrow> 32 word" where
  \<comment> \<open>Reading the four bytes back as a \<^verbatim>\<open>uint32_t\<close>.\<close>
  "key_id_of_bytes big_endian bs =
     foldr (\<lambda>c w. of_nat (of_char c) + push_bit 8 w) (if big_endian then rev bs else bs) 0"

definition SetEncryptionKey_id ::
  "bool \<Rightarrow> ColumnEncryptionProperties \<Rightarrow> string \<Rightarrow> 32 word
     \<Rightarrow> (error \<times> ColumnEncryptionProperties) + ColumnEncryptionProperties" where
  \<comment> \<open>\<^verbatim>\<open>SetEncryptionKey(const std::string& key, uint32_t key_id = 0)\<close>\<close>
  "SetEncryptionKey_id big_endian this k key_id =
     (let md = (if key_id = 0 then [] else key_id_bytes big_endian key_id)
      in SetEncryptionKey this k md)"

subsection \<open>EncryptionProperties\<close>

text \<open>
  Modelled from the spec: the enum \<^verbatim>\<open>Encryption::type\<close> and the class
  \<^verbatim>\<open>EncryptionProperties\<close> are declared in \<^verbatim>\<open>parquet/types.h\<close> and
  \<^verbatim>\<open>parquet/encryption.h\<close>. The spec describes the class as the value
  \<open>{algorithm, key, key_metadata, aad}\<close>, the last two optional;
  \<^verbatim>\<open>properties.h\<close> builds it from three or four arguments, reads it through
  \<^verbatim>\<open>algorithm()\<close>, \<^verbatim>\<open>key()\<close>, \<^verbatim>\<open>key_metadata()\<close> and \<^verbatim>\<open>aad()\<close> and sets the
  AAD with \<^verbatim>\<open>aad(value)\<close>. The fields carry the prefix \<open>enc\<close> to keep them apart from
  the members of the other classes. Of the enum, \<^verbatim>\<open>properties.h\<close> names the member
  \<^verbatim>\<open>AES_GCM_V1\<close>; the functions below only store and copy an algorithm, and the
  second member is there for an algorithm other than that one.
\<close>

datatype Encryption_type = AES_GCM_V1 | AES_GCM_CTR_V1

record EncryptionProperties =
  enc_algorithm :: Encryption_type
  enc_key :: string
  enc_key_metadata :: string
  enc_aad :: string

text \<open>
  \<^verbatim>\<open>FileEncryptionProperties\<close> holds its footer properties through a
  \<^verbatim>\<open>std::shared_ptr\<close> and hands the same pointer out, so the objects live in a store:
  the list of all \<^verbatim>\<open>EncryptionProperties\<close> allocated so far, an address being an index
  into it. \<^verbatim>\<open>new\<close> and \<^verbatim>\<open>make_shared\<close> append to the store; a pointer is
  \<open>Some a\<close>, and \<^verbatim>\<open>nullptr\<close> is \<open>None\<close>.
\<close>

type_synonym addr = nat
type_synonym heap = "EncryptionProperties list"

definition deref :: "heap \<Rightarrow> addr option \<Rightarrow> EncryptionProperties option" where
  "deref h p = (case p of None \<Rightarrow> None
                | Some a \<Rightarrow> if a < length h then Some (h ! a) else None)"

definition alloc :: "heap \<Rightarrow> EncryptionProperties \<Rightarrow> addr option \<times> heap" where
  "alloc h obj = (Some (length h), h @ [obj])"

subsection \<open>FileDecryptionProperties\<close>

text \<open>
  \<^verbatim>\<open>DecryptionKeyRetriever\<close> is an interface of \<^verbatim>\<open>parquet/encryption.h\<close> with the one
  member \<^verbatim>\<open>GetKey(key_metadata)\<close>, which returns a key or throws; a retriever is the
  function it computes. \<^verbatim>\<open>column_keys_\<close> is a \<^verbatim>\<open>std::map\<close> from dotted paths to keys.
\<close>

type_synonym DecryptionKeyRetriever = "string \<Rightarrow> error + string"

record FileDecryptionProperties =
  footer_key :: string
  aad :: string
  column_keys :: "string \<rightharpoonup> string"
  key_retriever :: "DecryptionKeyRetriever option"

definition FileDecryptionProperties_ctor_key :: "bool \<Rightarrow> string \<Rightarrow> error + FileDecryptionProperties" where
  \<comment> \<open>\<^verbatim>\<open>FileDecryptionProperties(const std::string& footer_key)\<close>\<close>
  "FileDecryptionProperties_ctor_key dchecks fk =
     (if \<not> DCHECK dchecks (length fk = 16 \<or> length fk = 24 \<or> length fk = 32)
        then Inl CheckFailure
      else Inr \<lparr>footer_key = fk, aad = [], column_keys = Map.empty, key_retriever = None\<rparr>)"

definition FileDecryptionProperties_ctor_retriever ::
  "DecryptionKeyRetriever option \<Rightarrow> FileDecryptionProperties" where
  \<comment> \<open>\<^verbatim>\<open>FileDecryptionProperties(const std::shared_ptr<DecryptionKeyRetriever>& key_retriever)\<close>\<close>
  "FileDecryptionProperties_ctor_retriever r =
     \<lparr>footer_key = [], aad = [], column_keys = Map.empty, key_retriever = r\<rparr>"

definition SetAad :: "FileDecryptionProperties \<Rightarrow> string \<Rightarrow> FileDecryptionProperties" where
  "SetAad this a = this\<lparr>aad := a\<rparr>"

definition SetColumnKey ::
  "bool \<Rightarrow> FileDecryptionProperties \<Rightarrow> string list \<Rightarrow> string \<Rightarrow> error + FileDecryptionProperties" where
  \<comment> \<open>\<^verbatim>\<open>SetColumnKey(const std::vector<std::string>& paths, const std::string& key)\<close>\<close>
  "SetColumnKey dchecks this paths k =
     (if \<not> DCHECK dchecks (length k = 16 \<or> length k = 24 \<or> length k = 32)
        then Inl CheckFailure
      else Inr (this\<lparr>column_keys := (column_keys this)(ToDotString paths \<mapsto> k)\<rparr>))"

definition SetColumnKey_name ::
  "bool \<Rightarrow> FileDecryptionProperties \<Rightarrow> string \<Rightarrow> string \<Rightarrow> error + FileDecryptionProperties" where
  \<comment> \<open>\<^verbatim>\<open>SetColumnKey(const std::string& name, const std::string& key)\<close>\<close>
  "SetColumnKey_name dchecks this name k = SetColumnKey dchecks this [name] k"

definition GetColumnKey :: "FileDecryptionProperties \<Rightarrow> string list \<Rightarrow> string \<Rightarrow> error + string" where
  "GetColumnKey this columnPath md =
     (if md = []
        then (case column_keys this (ToDotString columnPath) of
                None \<Rightarrow> Inl out_of_range
              | Some k \<Rightarrow> Inr k)
      else (case key_retriever this of
              None \<Rightarrow> Inl (ParquetException ''no key retriever is provided for column key metadata'')
            | Some r \<Rightarrow> r md))"

definition GetFooterKey :: "FileDecryptionProperties \<Rightarrow> string \<Rightarrow> error + string" where
  "GetFooterKey this footer_key_metadata =
     (if footer_key_metadata = []
        then Inr (footer_key this)
      else (case key_retriever this of
              None \<Rightarrow> Inl (ParquetException ''no key retriever is provided for footer key metadata'')
            | Some r \<Rightarrow> r footer_key_metadata))"

subsection \<open>FileEncryptionProperties\<close>

record FileEncryptionProperties =
  footer_encryption :: "addr option"
  uniform_encryption :: bool
  columns :: "ColumnEncryptionProperties list"
  encrypt_the_rest :: bool

text \<open>
  The constructor leaves \<^verbatim>\<open>encrypt_the_rest_\<close> uninitialised; what the member holds
  until \<^verbatim>\<open>SetupColumns\<close> writes it is the argument \<open>indeterminate\<close>.
\<close>

definition FileEncryptionProperties_ctor ::
  "bool \<Rightarrow> bool \<Rightarrow> heap \<Rightarrow> Encryption_type \<Rightarrow> string \<Rightarrow> string
     \<Rightarrow> error + (FileEncryptionProperties \<times> heap)" where
  \<comment> \<open>\<^verbatim>\<open>FileEncryptionProperties(Encryption::type algorithm, const std::string& key,
      const std::string& key_metadata)\<close>\<close>
  "FileEncryptionProperties_ctor dchecks indeterminate h algorithm k md =
     (if \<not> DCHECK dchecks (length k = 16 \<or> length k = 24 \<or> length k = 32)
        then Inl CheckFailure
      else if md \<noteq> [] \<and> \<not> DCHECK dchecks (length md \<le> 256)
        then Inl CheckFailure
      else
        (let (p, h') = alloc h \<lparr>enc_algorithm = algorithm, enc_key = k,
                                 enc_key_metadata = md, enc_aad = []\<rparr>
         in Inr (\<lparr>footer_encryption = p, uniform_encryption = (k \<noteq> []),
                   columns = [], encrypt_the_rest = indeterminate\<rparr>, h')))"

text \<open>
  The first loop of \<^verbatim>\<open>SetupColumns\<close>: \<open>u\<close> is \<^verbatim>\<open>uniform_encryption_\<close>; a column whose
  key differs from the footer key sets it to false and leaves the loop.
\<close>

fun uniform_scan :: "string \<Rightarrow> ColumnEncryptionProperties list \<Rightarrow> bool \<Rightarrow> bool" where
  "uniform_scan fk [] u = u"
| "uniform_scan fk (col # cols) u =
     (if key col \<noteq> fk then False else uniform_scan fk cols u)"

text \<open>
  The second loop: \<open>a\<close> is \<^verbatim>\<open>all_are_unencrypted\<close>; an encrypted column without a
  key throws.
\<close>

fun unencrypted_scan :: "ColumnEncryptionProperties list \<Rightarrow> bool \<Rightarrow> error + bool" where
  "unencrypted_scan [] a = Inr a"
| "unencrypted_scan (col # cols) a =
     (if encrypt col
        then (if key col = []
                then Inl (ParquetException ''Encrypt column with null footer key'')
              else unencrypted_scan cols False)
      else unencrypted_scan cols a)"

definition SetupColumns ::
  "heap \<Rightarrow> FileEncryptionProperties \<Rightarrow> ColumnEncryptionProperties list \<Rightarrow> bool
     \<Rightarrow> (error \<times> FileEncryptionProperties) + FileEncryptionProperties" where
  "SetupColumns h this cols rest =
     (let this1 = this\<lparr>encrypt_the_rest := rest, columns := cols\<rparr>
      in case deref h (footer_encryption this1) of
           None \<Rightarrow> Inl (NullPointer, this1)
         | Some footer \<Rightarrow>
             if enc_key footer \<noteq> []
               then Inr (this1\<lparr>uniform_encryption := uniform_scan (enc_key footer) cols True\<rparr>)
             else if rest
               then Inl (ParquetException ''Encrypt the rest with null footer key'', this1)
             else (case unencrypted_scan cols True of
                     Inl e \<Rightarrow> Inl (e, this1)
                   | Inr all_are_unencrypted \<Rightarrow>
                       if all_are_unencrypted
                         then Inl (ParquetException ''Footer and all columns unencrypted'', this1)
                       else Inr this1))"

text \<open>
  The loop of \<^verbatim>\<open>GetColumnEncryptionProperties\<close>: the first column of \<^verbatim>\<open>columns_\<close>
  whose path is \<^verbatim>\<open>path_str\<close>, where the loop returns; \<open>None\<close> when the loop runs to
  its end.
\<close>

fun column_with_path ::
  "string \<Rightarrow> ColumnEncryptionProperties list \<Rightarrow> ColumnEncryptionProperties option" where
  "column_with_path path_str [] = None"
| "column_with_path path_str (col # cols) =
     (if path col = path_str then Some col else column_with_path path_str cols)"

text \<open>
  \<^verbatim>\<open>GetColumnCryptoMetaData\<close> returns a \<^verbatim>\<open>shared_ptr<ColumnEncryptionProperties>\<close>.
  Three of its branches allocate the object they return (\<^verbatim>\<open>make_shared\<close>, \<^verbatim>\<open>new\<close>).
  The branch for a listed column returns
  \<^verbatim>\<open>std::shared_ptr<ColumnEncryptionProperties>(const_cast<ColumnEncryptionProperties*>(&col))\<close>:
  a new owning pointer that holds the address of the element of \<^verbatim>\<open>columns_\<close>. So a
  pointer to column properties is the address of an allocated object, or the place of an
  element in \<^verbatim>\<open>columns_\<close>. The allocated objects live in a store of their own, where a
  deleted object leaves \<open>None\<close>.
\<close>

datatype column_ptr =
    Heap_column addr         \<comment> \<open>an object made by \<^verbatim>\<open>new\<close> or \<^verbatim>\<open>make_shared\<close>\<close>
  | Element_of_columns nat   \<comment> \<open>\<^verbatim>\<open>&columns_[i]\<close>, inside the storage of the vector\<close>

type_synonym column_heap = "ColumnEncryptionProperties option list"

definition alloc_column ::
  "column_heap \<Rightarrow> ColumnEncryptionProperties \<Rightarrow> column_ptr \<times> column_heap" where
  "alloc_column ch obj = (Heap_column (length ch), ch @ [Some obj])"

definition read_column ::
  "column_heap \<Rightarrow> FileEncryptionProperties \<Rightarrow> column_ptr \<Rightarrow> ColumnEncryptionProperties option" where
  \<comment> \<open>The object a pointer points to, if there is one.\<close>
  "read_column ch this p =
     (case p of
        Heap_column a \<Rightarrow> if a < length ch then ch ! a else None
      | Element_of_columns i \<Rightarrow>
          if i < length (columns this) then Some (columns this ! i) else None)"

definition release_column :: "column_heap \<Rightarrow> column_ptr \<Rightarrow> error + column_heap" where
  \<comment> \<open>The end of the last \<^verbatim>\<open>shared_ptr\<close> of a group that owns \<open>p\<close>: its deleter runs
      \<^verbatim>\<open>delete p\<close>. An element of a vector is not an object that \<^verbatim>\<open>new\<close> has made.\<close>
  "release_column ch p =
     (case p of
        Heap_column a \<Rightarrow>
          if a < length ch
            then (case ch ! a of None \<Rightarrow> Inl InvalidDelete | Some obj \<Rightarrow> Inr (ch[a := None]))
          else Inl InvalidDelete
      | Element_of_columns i \<Rightarrow> Inl InvalidDelete)"

text \<open>
  The loop of \<^verbatim>\<open>GetColumnCryptoMetaData\<close>: \<open>i\<close> is the place of the element \<open>col\<close> in
  \<^verbatim>\<open>columns_\<close>; the loop returns at the first element whose path is \<^verbatim>\<open>path_str\<close>, with
  the address of that element.
\<close>

fun column_element_with_path ::
  "string \<Rightarrow> ColumnEncryptionProperties list \<Rightarrow> nat \<Rightarrow> nat option" where
  "column_element_with_path path_str [] i = None"
| "column_element_with_path path_str (col # cols) i =
     (if path col = path_str then Some i else column_element_with_path path_str cols (Suc i))"

definition GetColumnCryptoMetaData ::
  "column_heap \<Rightarrow> FileEncryptionProperties \<Rightarrow> string list \<Rightarrow> column_ptr \<times> column_heap" where
  \<comment> \<open>The returned pointer, and the store of column properties after the call.\<close>
  "GetColumnCryptoMetaData ch this p =
     (if uniform_encryption this
        then alloc_column ch (ColumnEncryptionProperties_ctor True (ToDotString p))
      else (let path_str = ToDotString p
            in case column_element_with_path path_str (columns this) 0 of
                 Some i \<Rightarrow> (Element_of_columns i, ch)
               | None \<Rightarrow>
                   if encrypt_the_rest this
                     then alloc_column ch (ColumnEncryptionProperties_ctor True (ToDotString p))
                   else alloc_column ch (ColumnEncryptionProperties_ctor False (ToDotString p))))"

definition GetColumnEncryptionProperties ::
  "heap \<Rightarrow> FileEncryptionProperties \<Rightarrow> string list \<Rightarrow> error + (addr option \<times> heap)" where
  \<comment> \<open>The returned pointer, and the store after the call.\<close>
  "GetColumnEncryptionProperties h this p =
     (if uniform_encryption this
        then Inr (footer_encryption this, h)
      else (let path_str = ToDotString p
            in case column_with_path path_str (columns this) of
                 Some col \<Rightarrow>
                   (case deref h (footer_encryption this) of
                      None \<Rightarrow> Inl NullPointer
                    | Some footer \<Rightarrow>
                        Inr (alloc h \<lparr>enc_algorithm = enc_algorithm footer, enc_key = key col,
                                       enc_key_metadata = key_metadata col,
                                       enc_aad = enc_aad footer\<rparr>))
               | None \<Rightarrow>
                   if encrypt_the_rest this
                     then Inr (footer_encryption this, h)
                   else Inr (None, h)))"

definition SetupAad :: "heap \<Rightarrow> FileEncryptionProperties \<Rightarrow> string \<Rightarrow> error + heap" where
  \<comment> \<open>\<^verbatim>\<open>footer_encryption_->aad(aad)\<close>: writes through the pointer.\<close>
  "SetupAad h this a =
     (case footer_encryption this of
        None \<Rightarrow> Inl NullPointer
      | Some x \<Rightarrow> if x < length h then Inr (h[x := (h ! x)\<lparr>enc_aad := a\<rparr>]) else Inl NullPointer)"

subsection \<open>Example values\<close>

text \<open>
  Two 16-byte keys, and the object and store that the constructor yields on an empty
  store for the algorithm \<open>AES_GCM_V1\<close>, a footer key \<open>k\<close> and no key metadata.
\<close>

definition K1 :: string where
  "K1 = ''0123456789abcdef''"

definition K2 :: string where
  "K2 = ''fedcba9876543210''"

definition footer_store :: "string \<Rightarrow> heap" where
  "footer_store k =
     [\<lparr>enc_algorithm = AES_GCM_V1, enc_key = k, enc_key_metadata = [], enc_aad = []\<rparr>]"

definition fresh_policy :: "string \<Rightarrow> FileEncryptionProperties" where
  "fresh_policy k =
     \<lparr>footer_encryption = Some 0, uniform_encryption = (k \<noteq> []), columns = [],
      encrypt_the_rest = False\<rparr>"

text \<open>
  The column \<open>p\<close> after \<^verbatim>\<open>ColumnEncryptionProperties(true, p)\<close> and
  \<^verbatim>\<open>SetEncryptionKey(k)\<close>.
\<close>

definition keyed_column :: "string \<Rightarrow> string \<Rightarrow> ColumnEncryptionProperties" where
  "keyed_column p k =
     \<lparr>encrypt = True, path = p, encrypted_with_footer_key = False, key = k,
      key_metadata = []\<rparr>"

section \<open>Properties\<close>

subsection \<open>Auxiliary facts\<close>

lemma keyed_column_constructed:
  "k \<noteq> [] \<Longrightarrow>
     SetEncryptionKey_id big_endian (ColumnEncryptionProperties_ctor True p) k 0 =
       Inr (keyed_column p k)"
  by (simp add: SetEncryptionKey_id_def SetEncryptionKey_def ColumnEncryptionProperties_ctor_def
      keyed_column_def)

lemma fresh_policy_constructed:
  "FileEncryptionProperties_ctor False False [] AES_GCM_V1 k [] =
     Inr (fresh_policy k, footer_store k)"
  by (simp add: FileEncryptionProperties_ctor_def DCHECK_def alloc_def fresh_policy_def
      footer_store_def)

lemma deref_footer_store:
  "deref (footer_store k) (footer_encryption (fresh_policy k)) =
     Some \<lparr>enc_algorithm = AES_GCM_V1, enc_key = k, enc_key_metadata = [], enc_aad = []\<rparr>"
  by (simp add: deref_def footer_store_def fresh_policy_def)

lemma key_id_bytes_length: "length (key_id_bytes big_endian key_id) = 4"
  by (simp add: key_id_bytes_def)

lemma key_id_byte_value:
  "of_nat (of_char (key_id_byte w i)) = (take_bit 8 (drop_bit (8 * i) w) :: 32 word)"
proof -
  have "unat (drop_bit (8 * i) w) mod 256 = take_bit 8 (unat (drop_bit (8 * i) w))"
    by (simp add: take_bit_eq_mod)
  then show ?thesis
    unfolding key_id_byte_def
    by (simp add: of_nat_take_bit)
qed

lemma low_byte_and_rest: "(w :: 32 word) = take_bit 8 w + push_bit 8 (drop_bit 8 w)"
  using bits_ident [of 8 w] by (simp add: add.commute)

lemma top_byte: "take_bit 8 (drop_bit 24 (w :: 32 word)) = drop_bit 24 w"
  by (rule bit_word_eqI) (auto simp add: bit_simps dest: bit_imp_le_length)

lemma four_bytes:
  "take_bit 8 w + push_bit 8 (take_bit 8 (drop_bit 8 w) +
     push_bit 8 (take_bit 8 (drop_bit 16 w) + push_bit 8 (take_bit 8 (drop_bit 24 w)))) =
   (w :: 32 word)"
proof -
  have third: "drop_bit 16 w = take_bit 8 (drop_bit 16 w) + push_bit 8 (drop_bit 24 w)"
    using low_byte_and_rest [of "drop_bit 16 w"] by simp
  have second: "drop_bit 8 w = take_bit 8 (drop_bit 8 w) + push_bit 8 (drop_bit 16 w)"
    using low_byte_and_rest [of "drop_bit 8 w"] by simp
  show ?thesis
    unfolding top_byte
    using low_byte_and_rest [of w] second third by simp
qed

lemma key_id_of_bytes_inverse: "key_id_of_bytes big_endian (key_id_bytes big_endian w) = w"
  unfolding key_id_of_bytes_def key_id_bytes_def
  by (simp add: key_id_byte_value four_bytes)

lemma unencrypted_scan_throws:
  "c \<in> set cols \<Longrightarrow> encrypt c \<Longrightarrow> key c = [] \<Longrightarrow>
     unencrypted_scan cols a = Inl (ParquetException ''Encrypt column with null footer key'')"
  by (induction cols arbitrary: a) auto

lemma unencrypted_scan_all_unencrypted:
  "\<forall>c \<in> set cols. \<not> encrypt c \<Longrightarrow> unencrypted_scan cols a = Inr a"
  by (induction cols arbitrary: a) auto

lemma uniform_scan_True: "uniform_scan fk cols True = (\<forall>c \<in> set cols. key c = fk)"
  by (induction cols) auto

lemma SetupColumns_keeps_footer:
  "SetupColumns h this cols rest = Inr this' \<Longrightarrow>
     footer_encryption this' = footer_encryption this"
  by (auto simp add: SetupColumns_def Let_def split: option.splits if_splits sum.splits)

lemma column_element_with_path_None:
  "(column_element_with_path s cols i = None) = (column_with_path s cols = None)"
  by (induction cols arbitrary: i) auto

lemma column_element_with_path_Some:
  "column_element_with_path s cols i = Some j \<Longrightarrow>
     i \<le> j \<and> j - i < length cols \<and> column_with_path s cols = Some (cols ! (j - i))"
proof (induction cols arbitrary: i)
  case Nil
  then show ?case by simp
next
  case (Cons col cols)
  show ?case
  proof (cases "path col = s")
    case True
    with Cons.prems show ?thesis by simp
  next
    case False
    with Cons.prems have rest: "column_element_with_path s cols (Suc i) = Some j"
      by simp
    from Cons.IH [OF rest] have "Suc i \<le> j" and "j - Suc i < length cols"
      and "column_with_path s cols = Some (cols ! (j - Suc i))"
      by simp_all
    moreover from \<open>Suc i \<le> j\<close> have "j - i = Suc (j - Suc i)"
      by simp
    ultimately show ?thesis using False by simp
  qed
qed

lemma column_with_path_find: "column_with_path s cols = find (\<lambda>c. path c = s) cols"
  by (induction cols) auto

subsection \<open>Setting a column key\<close>

text \<open>
  Claim C9. \<^verbatim>\<open>SetEncryptionKey\<close> throws a \<^verbatim>\<open>ParquetException\<close> when the column is not
  marked encrypted, or when the key is empty, and the object is then as it was before the
  call. Otherwise it clears \<open>encrypted_with_footer_key\<close> and stores the key and the
  metadata. The variant with a numeric key id stores empty metadata for the id 0 and,
  for any other id, four bytes from which the id can be read back.
\<close>

theorem SetEncryptionKey_outcomes:
  "(\<not> encrypt this \<longrightarrow>
      SetEncryptionKey this k md =
        Inl (ParquetException (''Setting key on unencrypted column: '' @ path this), this)) \<and>
   (encrypt this \<and> k = [] \<longrightarrow>
      SetEncryptionKey this k md = Inl (ParquetException (''Null key for '' @ path this), this)) \<and>
   (encrypt this \<and> k \<noteq> [] \<longrightarrow>
      SetEncryptionKey this k md =
        Inr (this\<lparr>encrypted_with_footer_key := False, key := k, key_metadata := md\<rparr>)) \<and>
   SetEncryptionKey_id big_endian this k 0 = SetEncryptionKey this k [] \<and>
   (key_id \<noteq> 0 \<longrightarrow>
      SetEncryptionKey_id big_endian this k key_id =
        SetEncryptionKey this k (key_id_bytes big_endian key_id) \<and>
      length (key_id_bytes big_endian key_id) = 4 \<and>
      key_id_of_bytes big_endian (key_id_bytes big_endian key_id) = key_id)"
  by (simp add: SetEncryptionKey_def SetEncryptionKey_id_def key_id_bytes_length
      key_id_of_bytes_inverse)

theorem SetEncryptionKey_outcomes_witness:
  "SetEncryptionKey (ColumnEncryptionProperties_ctor False ''a'') K1 ''m'' =
     Inl (ParquetException ''Setting key on unencrypted column: a'',
          ColumnEncryptionProperties_ctor False ''a'') \<and>
   SetEncryptionKey (ColumnEncryptionProperties_ctor True ''a'') [] ''m'' =
     Inl (ParquetException ''Null key for a'', ColumnEncryptionProperties_ctor True ''a'') \<and>
   SetEncryptionKey (ColumnEncryptionProperties_ctor True ''a'') K1 ''m'' =
     Inr \<lparr>encrypt = True, path = ''a'', encrypted_with_footer_key = False, key = K1,
          key_metadata = ''m''\<rparr> \<and>
   SetEncryptionKey_id False (ColumnEncryptionProperties_ctor True ''a'') K1 0 =
     Inr \<lparr>encrypt = True, path = ''a'', encrypted_with_footer_key = False, key = K1,
          key_metadata = []\<rparr> \<and>
   SetEncryptionKey_id False (ColumnEncryptionProperties_ctor True ''a'') K1 1 =
     Inr \<lparr>encrypt = True, path = ''a'', encrypted_with_footer_key = False, key = K1,
          key_metadata = key_id_bytes False 1\<rparr> \<and>
   length (key_id_bytes False 1) = 4"
  using
    SetEncryptionKey_outcomes [of "ColumnEncryptionProperties_ctor False ''a''" K1 "''m''" False 1]
    SetEncryptionKey_outcomes [of "ColumnEncryptionProperties_ctor True ''a''" "[]" "''m''" False 1]
    SetEncryptionKey_outcomes [of "ColumnEncryptionProperties_ctor True ''a''" K1 "''m''" False 1]
    SetEncryptionKey_outcomes [of "ColumnEncryptionProperties_ctor True ''a''" K1 "[]" False 1]
    SetEncryptionKey_outcomes [of "ColumnEncryptionProperties_ctor True ''a''" K1
      "key_id_bytes False 1" False 1]
  by (simp add: ColumnEncryptionProperties_ctor_def K1_def)

subsection \<open>Resolving keys for decryption\<close>

text \<open>
  Claim C7. \<^verbatim>\<open>GetColumnKey\<close> with empty key metadata looks the dotted path up in
  \<^verbatim>\<open>column_keys_\<close> and fails with \<^verbatim>\<open>std::out_of_range\<close> (the key is not found) when the
  path has no entry. With metadata it throws a \<^verbatim>\<open>ParquetException\<close> when there is no key
  retriever, and otherwise returns whatever the retriever returns for the metadata, its
  failure included. \<^verbatim>\<open>GetFooterKey\<close> does the same with the stored footer key in place
  of the map.
\<close>

theorem GetColumnKey_GetFooterKey_resolution:
  "(column_keys this (ToDotString columnPath) = None \<longrightarrow>
      GetColumnKey this columnPath [] = Inl out_of_range) \<and>
   (column_keys this (ToDotString columnPath) = Some k \<longrightarrow>
      GetColumnKey this columnPath [] = Inr k) \<and>
   GetFooterKey this [] = Inr (footer_key this) \<and>
   (md \<noteq> [] \<and> key_retriever this = None \<longrightarrow>
      GetColumnKey this columnPath md =
        Inl (ParquetException ''no key retriever is provided for column key metadata'') \<and>
      GetFooterKey this md =
        Inl (ParquetException ''no key retriever is provided for footer key metadata'')) \<and>
   (md \<noteq> [] \<and> key_retriever this = Some r \<longrightarrow>
      GetColumnKey this columnPath md = r md \<and> GetFooterKey this md = r md)"
  by (simp add: GetColumnKey_def GetFooterKey_def)

text \<open>
  The retriever of the example knows the metadata \<open>''M''\<close> only; the registered column is
  \<open>a.b\<close>.
\<close>

theorem GetColumnKey_GetFooterKey_resolution_witness:
  "GetColumnKey \<lparr>footer_key = K1, aad = [], column_keys = [''a.b'' \<mapsto> K2], key_retriever = None\<rparr>
     [''a'', ''c''] [] = Inl out_of_range \<and>
   GetColumnKey \<lparr>footer_key = K1, aad = [], column_keys = [''a.b'' \<mapsto> K2], key_retriever = None\<rparr>
     [''a'', ''b''] [] = Inr K2 \<and>
   GetColumnKey \<lparr>footer_key = K1, aad = [], column_keys = [''a.b'' \<mapsto> K2], key_retriever = None\<rparr>
     [''a'', ''b''] ''M'' =
       Inl (ParquetException ''no key retriever is provided for column key metadata'') \<and>
   GetFooterKey \<lparr>footer_key = K1, aad = [], column_keys = [''a.b'' \<mapsto> K2], key_retriever = None\<rparr>
     ''M'' = Inl (ParquetException ''no key retriever is provided for footer key metadata'') \<and>
   GetColumnKey
     (FileDecryptionProperties_ctor_retriever
        (Some (\<lambda>m. if m = ''M'' then Inr K1 else Inl (ParquetException ''unknown key''))))
     [''a''] ''M'' = Inr K1 \<and>
   GetFooterKey
     (FileDecryptionProperties_ctor_retriever
        (Some (\<lambda>m. if m = ''M'' then Inr K1 else Inl (ParquetException ''unknown key''))))
     ''N'' = Inl (ParquetException ''unknown key'')"
  using
    GetColumnKey_GetFooterKey_resolution
      [of "\<lparr>footer_key = K1, aad = [], column_keys = [''a.b'' \<mapsto> K2], key_retriever = None\<rparr>"
          "[''a'', ''c'']" K2 "''M''"]
    GetColumnKey_GetFooterKey_resolution
      [of "\<lparr>footer_key = K1, aad = [], column_keys = [''a.b'' \<mapsto> K2], key_retriever = None\<rparr>"
          "[''a'', ''b'']" K2 "''M''"]
    GetColumnKey_GetFooterKey_resolution
      [of "FileDecryptionProperties_ctor_retriever
             (Some (\<lambda>m. if m = ''M'' then Inr K1 else Inl (ParquetException ''unknown key'')))"
          "[''a'']" K2 "''M''"
          "\<lambda>m. if m = ''M'' then Inr K1 else Inl (ParquetException ''unknown key'')"]
    GetColumnKey_GetFooterKey_resolution
      [of "FileDecryptionProperties_ctor_retriever
             (Some (\<lambda>m. if m = ''M'' then Inr K1 else Inl (ParquetException ''unknown key'')))"
          "[''a'']" K2 "''N''"
          "\<lambda>m. if m = ''M'' then Inr K1 else Inl (ParquetException ''unknown key'')"]
  by (simp add: FileDecryptionProperties_ctor_retriever_def)

subsection \<open>Setting up the columns\<close>

text \<open>
  Claim C4. When the footer key is empty, \<^verbatim>\<open>SetupColumns\<close> with
  \<^verbatim>\<open>encrypt_the_rest = true\<close> throws the \<^verbatim>\<open>ParquetException\<close> "Encrypt the rest with null
  footer key", whatever the columns are. The object has then taken the two arguments.
\<close>

theorem SetupColumns_rest_without_footer_key:
  assumes "deref h (footer_encryption this) = Some footer"
    and "enc_key footer = []"
  shows "SetupColumns h this cols True =
           Inl (ParquetException ''Encrypt the rest with null footer key'',
                this\<lparr>encrypt_the_rest := True, columns := cols\<rparr>)"
  using assms by (simp add: SetupColumns_def)

theorem SetupColumns_rest_without_footer_key_witness:
  "FileEncryptionProperties_ctor False False [] AES_GCM_V1 [] [] =
     Inr (fresh_policy [], footer_store []) \<and>
   SetupColumns (footer_store []) (fresh_policy [])
       [\<lparr>encrypt = True, path = ''a'', encrypted_with_footer_key = False, key = K1,
         key_metadata = []\<rparr>] True =
     Inl (ParquetException ''Encrypt the rest with null footer key'',
          (fresh_policy [])\<lparr>encrypt_the_rest := True,
             columns := [\<lparr>encrypt = True, path = ''a'', encrypted_with_footer_key = False,
                          key = K1, key_metadata = []\<rparr>]\<rparr>)"
  using SetupColumns_rest_without_footer_key [OF deref_footer_store [of "[]"]]
  by (simp add: fresh_policy_constructed)

text \<open>
  Claim C5. When the footer key is empty and one of the columns is marked encrypted
  and has an empty key, \<^verbatim>\<open>SetupColumns\<close> throws a \<^verbatim>\<open>ParquetException\<close>: the one about
  the rest when \<^verbatim>\<open>encrypt_the_rest\<close> is set, and otherwise "Encrypt column with null
  footer key".
\<close>

theorem SetupColumns_encrypted_column_without_key:
  assumes "deref h (footer_encryption this) = Some footer"
    and "enc_key footer = []"
    and "c \<in> set cols" and "encrypt c" and "key c = []"
  shows "SetupColumns h this cols rest =
           Inl (ParquetException (if rest then ''Encrypt the rest with null footer key''
                                  else ''Encrypt column with null footer key''),
                this\<lparr>encrypt_the_rest := rest, columns := cols\<rparr>)"
  using assms unencrypted_scan_throws [of c cols True]
  by (simp add: SetupColumns_def)

theorem SetupColumns_encrypted_column_without_key_witness:
  "SetupColumns (footer_store []) (fresh_policy [])
       [ColumnEncryptionProperties_ctor False ''a'', ColumnEncryptionProperties_ctor True ''b'']
       False =
     Inl (ParquetException ''Encrypt column with null footer key'',
          (fresh_policy [])\<lparr>encrypt_the_rest := False,
             columns := [ColumnEncryptionProperties_ctor False ''a'',
                         ColumnEncryptionProperties_ctor True ''b'']\<rparr>)"
  using SetupColumns_encrypted_column_without_key
    [OF deref_footer_store [of "[]"], of "ColumnEncryptionProperties_ctor True ''b''"
       "[ColumnEncryptionProperties_ctor False ''a'', ColumnEncryptionProperties_ctor True ''b'']"
       False]
  by (simp add: ColumnEncryptionProperties_ctor_def)

text \<open>
  Claim C6, as the code has it. When the footer key is empty, every column is
  unencrypted and \<^verbatim>\<open>encrypt_the_rest\<close> is false, \<^verbatim>\<open>SetupColumns\<close> throws the
  \<^verbatim>\<open>ParquetException\<close> "Footer and all columns unencrypted". (With a footer key the
  same call succeeds, see the example after the theorem.)
\<close>

theorem SetupColumns_nothing_encrypted:
  assumes "deref h (footer_encryption this) = Some footer"
    and "enc_key footer = []"
    and "\<forall>c \<in> set cols. \<not> encrypt c"
  shows "SetupColumns h this cols False =
           Inl (ParquetException ''Footer and all columns unencrypted'',
                this\<lparr>encrypt_the_rest := False, columns := cols\<rparr>)"
  using assms unencrypted_scan_all_unencrypted [of cols True]
  by (simp add: SetupColumns_def)

theorem SetupColumns_nothing_encrypted_witness:
  "SetupColumns (footer_store []) (fresh_policy [])
       [ColumnEncryptionProperties_ctor False ''a'', ColumnEncryptionProperties_ctor False ''b'']
       False =
     Inl (ParquetException ''Footer and all columns unencrypted'',
          (fresh_policy [])\<lparr>encrypt_the_rest := False,
             columns := [ColumnEncryptionProperties_ctor False ''a'',
                         ColumnEncryptionProperties_ctor False ''b'']\<rparr>)"
  using SetupColumns_nothing_encrypted [OF deref_footer_store [of "[]"], of
       "[ColumnEncryptionProperties_ctor False ''a'', ColumnEncryptionProperties_ctor False ''b'']"]
  by (simp add: ColumnEncryptionProperties_ctor_def)

text \<open>
  With the footer key \<open>K1\<close>, one unencrypted column and \<^verbatim>\<open>encrypt_the_rest = false\<close>,
  \<^verbatim>\<open>SetupColumns\<close> returns normally.
\<close>

theorem SetupColumns_all_unencrypted_with_footer_key:
  "SetupColumns (footer_store K1) (fresh_policy K1)
       [ColumnEncryptionProperties_ctor False ''a''] False =
     Inr \<lparr>footer_encryption = Some 0, uniform_encryption = False,
          columns = [ColumnEncryptionProperties_ctor False ''a''], encrypt_the_rest = False\<rparr> \<and>
   encrypt (ColumnEncryptionProperties_ctor False ''a'') = False"
  by (simp add: SetupColumns_def deref_def footer_store_def fresh_policy_def K1_def
      ColumnEncryptionProperties_ctor_def)

text \<open>
  Claim C1, as the code has it. When the footer key is not empty, \<^verbatim>\<open>SetupColumns\<close>
  returns normally, and \<^verbatim>\<open>uniform_encryption_\<close> is then true if and only if the key of
  every listed column is equal to the footer key. An empty key is not equal to it: a
  listed column that has no key of its own makes the flag false like any other
  mismatch (see the example after the theorem). A column with a different key makes the
  flag false wherever it stands in the list and whatever follows it: the loop leaves at
  the first mismatch.
\<close>

theorem SetupColumns_uniform_encryption:
  assumes "deref h (footer_encryption this) = Some footer"
    and "enc_key footer \<noteq> []"
  shows "SetupColumns h this cols rest =
           Inr (this\<lparr>encrypt_the_rest := rest, columns := cols,
                     uniform_encryption := (\<forall>c \<in> set cols. key c = enc_key footer)\<rparr>) \<and>
         (key c \<noteq> enc_key footer \<longrightarrow>
            SetupColumns h this (xs @ c # ys) rest =
              Inr (this\<lparr>encrypt_the_rest := rest, columns := xs @ c # ys,
                        uniform_encryption := False\<rparr>))"
  using assms by (auto simp add: SetupColumns_def uniform_scan_True)

theorem SetupColumns_uniform_encryption_witness:
  "SetupColumns (footer_store K1) (fresh_policy K1)
       [keyed_column ''a'' K1, keyed_column ''b'' K1] True =
     Inr \<lparr>footer_encryption = Some 0, uniform_encryption = True,
          columns = [keyed_column ''a'' K1, keyed_column ''b'' K1],
          encrypt_the_rest = True\<rparr> \<and>
   SetupColumns (footer_store K1) (fresh_policy K1)
       [keyed_column ''a'' K1, keyed_column ''b'' K2, keyed_column ''c'' K1] False =
     Inr \<lparr>footer_encryption = Some 0, uniform_encryption = False,
          columns = [keyed_column ''a'' K1, keyed_column ''b'' K2, keyed_column ''c'' K1],
          encrypt_the_rest = False\<rparr>"
  using
    SetupColumns_uniform_encryption [OF deref_footer_store [of K1], where
      cols = "[keyed_column ''a'' K1, keyed_column ''b'' K1]" and rest = True]
    SetupColumns_uniform_encryption [OF deref_footer_store [of K1], where
      c = "keyed_column ''b'' K2" and rest = False
      and xs = "[keyed_column ''a'' K1]" and ys = "[keyed_column ''c'' K1]"]
  by (simp add: K1_def K2_def fresh_policy_def keyed_column_def)

text \<open>
  With the footer key \<open>K1\<close> and the one listed column \<open>a\<close>, encrypted and without a key
  of its own, the flag is false.
\<close>

theorem SetupColumns_unset_key_not_uniform:
  "SetupColumns (footer_store K1) (fresh_policy K1)
       [ColumnEncryptionProperties_ctor True ''a''] True =
     Inr \<lparr>footer_encryption = Some 0, uniform_encryption = False,
          columns = [ColumnEncryptionProperties_ctor True ''a''], encrypt_the_rest = True\<rparr> \<and>
   key (ColumnEncryptionProperties_ctor True ''a'') = []"
  by (simp add: SetupColumns_def deref_def footer_store_def fresh_policy_def K1_def
      ColumnEncryptionProperties_ctor_def)

subsection \<open>What a column is encrypted with\<close>

text \<open>
  Claim C3. What \<^verbatim>\<open>GetColumnCryptoMetaData\<close> returns points to the properties the
  claim names: in uniform mode a new object for the path, encrypted with the footer key;
  otherwise the first listed column with the path, and when there is none a new object
  for the path, encrypted with the footer key if \<^verbatim>\<open>encrypt_the_rest_\<close> is set and
  unencrypted if not. For a listed column, however, the pointer returned is an owning
  pointer to the element of \<^verbatim>\<open>columns_\<close> itself, where the other branches allocate. In
  the example, the object has the footer key \<open>K1\<close> and the one listed column \<open>a\<close> with
  the key \<open>K2\<close>, as \<^verbatim>\<open>SetupColumns\<close> leaves it. The lookup of \<open>a\<close> returns the address
  of element 0 of \<^verbatim>\<open>columns_\<close>, and the end of that pointer deletes an address inside
  the vector. The lookup of the unlisted \<open>b\<close> returns a new object, and the end of that
  pointer deletes it.
\<close>

theorem GetColumnCryptoMetaData_listed_column_owned:
  "SetupColumns (footer_store K1) (fresh_policy K1) [keyed_column ''a'' K2] False =
     Inr \<lparr>footer_encryption = Some 0, uniform_encryption = False,
          columns = [keyed_column ''a'' K2], encrypt_the_rest = False\<rparr> \<and>
   GetColumnCryptoMetaData []
       \<lparr>footer_encryption = Some 0, uniform_encryption = False,
        columns = [keyed_column ''a'' K2], encrypt_the_rest = False\<rparr> [''a''] =
     (Element_of_columns 0, []) \<and>
   read_column []
       \<lparr>footer_encryption = Some 0, uniform_encryption = False,
        columns = [keyed_column ''a'' K2], encrypt_the_rest = False\<rparr> (Element_of_columns 0) =
     Some (keyed_column ''a'' K2) \<and>
   release_column [] (Element_of_columns 0) = Inl InvalidDelete \<and>
   GetColumnCryptoMetaData []
       \<lparr>footer_encryption = Some 0, uniform_encryption = False,
        columns = [keyed_column ''a'' K2], encrypt_the_rest = False\<rparr> [''b''] =
     (Heap_column 0, [Some (ColumnEncryptionProperties_ctor False ''b'')]) \<and>
   release_column [Some (ColumnEncryptionProperties_ctor False ''b'')] (Heap_column 0) =
     Inr [None]"
  by (simp add: SetupColumns_def deref_def footer_store_def fresh_policy_def K1_def K2_def
      keyed_column_def GetColumnCryptoMetaData_def read_column_def release_column_def
      alloc_column_def)

text \<open>
  In every branch the pointer returned points to the properties that the contract of
  the function names; it can be released without harm exactly when it does not point
  into \<^verbatim>\<open>columns_\<close>.
\<close>

lemma GetColumnCryptoMetaData_pointer:
  assumes "GetColumnCryptoMetaData ch this cp = (p, ch')"
  shows "read_column ch' this p =
           Some (if uniform_encryption this
                   then ColumnEncryptionProperties_ctor True (ToDotString cp)
                 else case find (\<lambda>col. path col = ToDotString cp) (columns this) of
                        Some col \<Rightarrow> col
                      | None \<Rightarrow>
                          ColumnEncryptionProperties_ctor (encrypt_the_rest this) (ToDotString cp))"
    and "release_column ch' p =
           (if \<not> uniform_encryption this \<and>
               find (\<lambda>col. path col = ToDotString cp) (columns this) \<noteq> None
              then Inl InvalidDelete else Inr (ch @ [None]))"
proof -
  show "read_column ch' this p =
           Some (if uniform_encryption this
                   then ColumnEncryptionProperties_ctor True (ToDotString cp)
                 else case find (\<lambda>col. path col = ToDotString cp) (columns this) of
                        Some col \<Rightarrow> col
                      | None \<Rightarrow>
                          ColumnEncryptionProperties_ctor (encrypt_the_rest this) (ToDotString cp))"
  proof (cases "column_element_with_path (ToDotString cp) (columns this) 0")
    case None
    then have "find (\<lambda>col. path col = ToDotString cp) (columns this) = None"
      by (simp add: column_element_with_path_None column_with_path_find)
    with None assms show ?thesis
      by (auto simp add: GetColumnCryptoMetaData_def alloc_column_def read_column_def
          split: if_splits)
  next
    case (Some j)
    from column_element_with_path_Some [OF Some]
    have "j < length (columns this)"
      and "find (\<lambda>col. path col = ToDotString cp) (columns this) = Some (columns this ! j)"
      by (simp_all add: column_with_path_find)
    with Some assms show ?thesis
      by (auto simp add: GetColumnCryptoMetaData_def alloc_column_def read_column_def
          split: if_splits)
  qed
  show "release_column ch' p =
           (if \<not> uniform_encryption this \<and>
               find (\<lambda>col. path col = ToDotString cp) (columns this) \<noteq> None
              then Inl InvalidDelete else Inr (ch @ [None]))"
  proof (cases "column_element_with_path (ToDotString cp) (columns this) 0")
    case None
    then have "find (\<lambda>col. path col = ToDotString cp) (columns this) = None"
      by (simp add: column_element_with_path_None column_with_path_find)
    with None assms show ?thesis
      by (auto simp add: GetColumnCryptoMetaData_def alloc_column_def release_column_def
          split: if_splits)
  next
    case (Some j)
    from column_element_with_path_Some [OF Some]
    have "find (\<lambda>col. path col = ToDotString cp) (columns this) = Some (columns this ! j)"
      by (simp add: column_with_path_find)
    with Some assms show ?thesis
      by (auto simp add: GetColumnCryptoMetaData_def alloc_column_def release_column_def
          split: if_splits)
  qed
qed

text \<open>
  Claim C2. For an object whose footer pointer points to an object of the store,
  \<^verbatim>\<open>GetColumnEncryptionProperties\<close> returns, when \<^verbatim>\<open>uniform_encryption_\<close> is set, the
  footer pointer itself and allocates nothing. Otherwise, for the first listed column
  with that path it returns a pointer to a new object made of the footer's algorithm, the
  column's key and key metadata and the footer's AAD; when no column has the path it
  returns the footer pointer if \<^verbatim>\<open>encrypt_the_rest_\<close> is set and \<^verbatim>\<open>nullptr\<close> if not,
  again allocating nothing.
\<close>

theorem GetColumnEncryptionProperties_resolution:
  assumes "deref h (footer_encryption this) = Some footer"
  shows "GetColumnEncryptionProperties h this cp =
     Inr (if uniform_encryption this
            then (footer_encryption this, h)
          else case find (\<lambda>col. path col = ToDotString cp) (columns this) of
                 Some col \<Rightarrow>
                   (Some (length h),
                    h @ [\<lparr>enc_algorithm = enc_algorithm footer, enc_key = key col,
                          enc_key_metadata = key_metadata col, enc_aad = enc_aad footer\<rparr>])
               | None \<Rightarrow>
                   if encrypt_the_rest this then (footer_encryption this, h) else (None, h))"
  using assms
  by (simp add: GetColumnEncryptionProperties_def column_with_path_find alloc_def
      split: option.split)

theorem GetColumnEncryptionProperties_resolution_witness:
  "GetColumnEncryptionProperties (footer_store K1)
      \<lparr>footer_encryption = Some 0, uniform_encryption = True,
       columns = [keyed_column ''a'' K1], encrypt_the_rest = True\<rparr> [''b''] =
     Inr (Some 0, footer_store K1) \<and>
   GetColumnEncryptionProperties (footer_store K1)
      \<lparr>footer_encryption = Some 0, uniform_encryption = False,
       columns = [keyed_column ''a'' K2], encrypt_the_rest = False\<rparr> [''a''] =
     Inr (Some 1,
          footer_store K1 @
          [\<lparr>enc_algorithm = AES_GCM_V1, enc_key = K2, enc_key_metadata = [], enc_aad = []\<rparr>]) \<and>
   GetColumnEncryptionProperties (footer_store K1)
      \<lparr>footer_encryption = Some 0, uniform_encryption = False,
       columns = [keyed_column ''a'' K2], encrypt_the_rest = True\<rparr> [''b''] =
     Inr (Some 0, footer_store K1) \<and>
   GetColumnEncryptionProperties (footer_store K1)
      \<lparr>footer_encryption = Some 0, uniform_encryption = False,
       columns = [keyed_column ''a'' K2], encrypt_the_rest = False\<rparr> [''b''] =
     Inr (None, footer_store K1)"
  using
    GetColumnEncryptionProperties_resolution [of "footer_store K1" "\<lparr>footer_encryption = Some 0, uniform_encryption = True,
       columns = [keyed_column ''a'' K1], encrypt_the_rest = True\<rparr>" 
       "\<lparr>enc_algorithm = AES_GCM_V1, enc_key = K1, enc_key_metadata = [], enc_aad = []\<rparr>" "[''b'']"]
    GetColumnEncryptionProperties_resolution [of "footer_store K1" "\<lparr>footer_encryption = Some 0, uniform_encryption = False,
       columns = [keyed_column ''a'' K2], encrypt_the_rest = False\<rparr>" 
       "\<lparr>enc_algorithm = AES_GCM_V1, enc_key = K1, enc_key_metadata = [], enc_aad = []\<rparr>" "[''a'']"]
    GetColumnEncryptionProperties_resolution [of "footer_store K1" "\<lparr>footer_encryption = Some 0, uniform_encryption = False,
       columns = [keyed_column ''a'' K2], encrypt_the_rest = True\<rparr>" 
       "\<lparr>enc_algorithm = AES_GCM_V1, enc_key = K1, enc_key_metadata = [], enc_aad = []\<rparr>" "[''b'']"]
    GetColumnEncryptionProperties_resolution [of "footer_store K1" "\<lparr>footer_encryption = Some 0, uniform_encryption = False,
       columns = [keyed_column ''a'' K2], encrypt_the_rest = False\<rparr>" 
       "\<lparr>enc_algorithm = AES_GCM_V1, enc_key = K1, enc_key_metadata = [], enc_aad = []\<rparr>" "[''b'']"]
  by (simp add: keyed_column_def deref_def footer_store_def)

text \<open>
  Claim C10. An object that the constructor has made from a non-empty footer key has
  \<^verbatim>\<open>uniform_encryption_\<close> set before \<^verbatim>\<open>SetupColumns\<close> is ever called: for every path,
  \<^verbatim>\<open>GetColumnCryptoMetaData\<close> returns a new object that reports encryption with the
  footer key, and
  \<^verbatim>\<open>GetColumnEncryptionProperties\<close> returns the footer pointer, which points to the
  properties made from the constructor's arguments.
\<close>

theorem constructed_policy_is_uniform:
  assumes "FileEncryptionProperties_ctor dchecks indeterminate h algorithm k md = Inr (this, h')"
    and "k \<noteq> []"
  shows "uniform_encryption this \<and>
         GetColumnCryptoMetaData ch this cp =
           (Heap_column (length ch),
            ch @ [Some \<lparr>encrypt = True, path = ToDotString cp,
                        encrypted_with_footer_key = True, key = [], key_metadata = []\<rparr>]) \<and>
         read_column (snd (GetColumnCryptoMetaData ch this cp)) this
             (fst (GetColumnCryptoMetaData ch this cp)) =
           Some \<lparr>encrypt = True, path = ToDotString cp, encrypted_with_footer_key = True,
                 key = [], key_metadata = []\<rparr> \<and>
         GetColumnEncryptionProperties h' this cp = Inr (footer_encryption this, h') \<and>
         deref h' (footer_encryption this) =
           Some \<lparr>enc_algorithm = algorithm, enc_key = k, enc_key_metadata = md, enc_aad = []\<rparr>"
  using assms
  by (auto simp add: FileEncryptionProperties_ctor_def alloc_def GetColumnCryptoMetaData_def
      GetColumnEncryptionProperties_def ColumnEncryptionProperties_ctor_def deref_def
      alloc_column_def read_column_def split: if_splits)

theorem constructed_policy_is_uniform_witness:
  "FileEncryptionProperties_ctor True True [] AES_GCM_V1 K1 ''id'' =
     Inr (\<lparr>footer_encryption = Some 0, uniform_encryption = True, columns = [],
           encrypt_the_rest = True\<rparr>,
          [\<lparr>enc_algorithm = AES_GCM_V1, enc_key = K1, enc_key_metadata = ''id'', enc_aad = []\<rparr>]) \<and>
   GetColumnCryptoMetaData []
     \<lparr>footer_encryption = Some 0, uniform_encryption = True, columns = [],
      encrypt_the_rest = True\<rparr> [''a'', ''b''] =
     (Heap_column 0,
      [Some \<lparr>encrypt = True, path = ''a.b'', encrypted_with_footer_key = True,
             key = [], key_metadata = []\<rparr>]) \<and>
   GetColumnEncryptionProperties
     [\<lparr>enc_algorithm = AES_GCM_V1, enc_key = K1, enc_key_metadata = ''id'', enc_aad = []\<rparr>]
     \<lparr>footer_encryption = Some 0, uniform_encryption = True, columns = [],
      encrypt_the_rest = True\<rparr> [''a'', ''b''] =
     Inr (Some 0,
          [\<lparr>enc_algorithm = AES_GCM_V1, enc_key = K1, enc_key_metadata = ''id'', enc_aad = []\<rparr>])"
proof -
  have made: "FileEncryptionProperties_ctor True True [] AES_GCM_V1 K1 ''id'' =
     Inr (\<lparr>footer_encryption = Some 0, uniform_encryption = True, columns = [],
           encrypt_the_rest = True\<rparr>,
          [\<lparr>enc_algorithm = AES_GCM_V1, enc_key = K1, enc_key_metadata = ''id'', enc_aad = []\<rparr>])"
    by (simp add: FileEncryptionProperties_ctor_def DCHECK_def alloc_def K1_def)
  have "K1 \<noteq> []" by (simp add: K1_def)
  from constructed_policy_is_uniform [OF made this, of "[]" "[''a'', ''b'']"] made
  show ?thesis by simp
qed

subsection \<open>Key lengths\<close>

text \<open>
  Claim C8, as the code has it. The lengths are checked by \<^verbatim>\<open>DCHECK\<close> only. In a build
  that keeps the checks, the constructor of \<^verbatim>\<open>FileEncryptionProperties\<close> and
  \<^verbatim>\<open>SetColumnKey\<close> abort on a non-empty key whose length is not 16, 24 or 32, the
  constructor aborts on key metadata longer than 256 bytes, and a key of 16, 24 or 32
  bytes with metadata of at most 256 bytes is accepted. In a build without the checks
  nothing is validated: both calls succeed on every key and metadata, an empty footer
  key included. No \<^verbatim>\<open>ParquetException\<close> is thrown in either build.
\<close>

theorem key_length_dchecks:
  "(k \<noteq> [] \<and> length k \<noteq> 16 \<and> length k \<noteq> 24 \<and> length k \<noteq> 32 \<longrightarrow>
      FileEncryptionProperties_ctor True indeterminate h algorithm k md = Inl CheckFailure \<and>
      SetColumnKey True decryption paths k = Inl CheckFailure) \<and>
   (256 < length md \<longrightarrow>
      FileEncryptionProperties_ctor True indeterminate h algorithm k md = Inl CheckFailure) \<and>
   ((length k = 16 \<or> length k = 24 \<or> length k = 32) \<and> length md \<le> 256 \<longrightarrow>
      FileEncryptionProperties_ctor True indeterminate h algorithm k md =
        FileEncryptionProperties_ctor False indeterminate h algorithm k md \<and>
      SetColumnKey True decryption paths k = SetColumnKey False decryption paths k) \<and>
   FileEncryptionProperties_ctor False indeterminate h algorithm k md =
     Inr (\<lparr>footer_encryption = Some (length h), uniform_encryption = (k \<noteq> []),
           columns = [], encrypt_the_rest = indeterminate\<rparr>,
          h @ [\<lparr>enc_algorithm = algorithm, enc_key = k, enc_key_metadata = md,
                enc_aad = []\<rparr>]) \<and>
   SetColumnKey False decryption paths k =
     Inr (decryption\<lparr>column_keys := (column_keys decryption)(ToDotString paths \<mapsto> k)\<rparr>)"
  by (auto simp add: FileEncryptionProperties_ctor_def SetColumnKey_def DCHECK_def alloc_def)

theorem key_length_dchecks_witness:
  "FileEncryptionProperties_ctor True False [] AES_GCM_V1 ''abc'' [] = Inl CheckFailure \<and>
   SetColumnKey True (FileDecryptionProperties_ctor_retriever None) [''a'', ''b''] ''abc'' =
     Inl CheckFailure \<and>
   FileEncryptionProperties_ctor True False [] AES_GCM_V1 K1 (replicate 257 CHR ''m'') =
     Inl CheckFailure \<and>
   FileEncryptionProperties_ctor True False [] AES_GCM_V1 K1 ''m'' =
     Inr (\<lparr>footer_encryption = Some 0, uniform_encryption = True, columns = [],
           encrypt_the_rest = False\<rparr>,
          [\<lparr>enc_algorithm = AES_GCM_V1, enc_key = K1, enc_key_metadata = ''m'',
            enc_aad = []\<rparr>]) \<and>
   SetColumnKey True (FileDecryptionProperties_ctor_retriever None) [''a'', ''b''] K1 =
     Inr \<lparr>footer_key = [], aad = [], column_keys = [''a.b'' \<mapsto> K1], key_retriever = None\<rparr>"
  using
    key_length_dchecks [of "''abc''" False "[]" AES_GCM_V1 "[]" "FileDecryptionProperties_ctor_retriever None"
          "[''a'', ''b'']"]
    key_length_dchecks [of K1 False "[]" AES_GCM_V1 "replicate 257 CHR ''m''"
          "FileDecryptionProperties_ctor_retriever None" "[''a'', ''b'']"]
    key_length_dchecks [of K1 False "[]" AES_GCM_V1 "''m''"
          "FileDecryptionProperties_ctor_retriever None" "[''a'', ''b'']"]
  by (simp add: K1_def FileDecryptionProperties_ctor_retriever_def)

text \<open>
  Without the checks the constructor accepts a footer key of three bytes; with the
  checks it aborts on the empty footer key.
\<close>

theorem key_length_not_validated:
  "FileEncryptionProperties_ctor False False [] AES_GCM_V1 ''abc'' [] =
     Inr (fresh_policy ''abc'', footer_store ''abc'') \<and>
   FileEncryptionProperties_ctor True False [] AES_GCM_V1 [] [] = Inl CheckFailure"
  by (simp add: FileEncryptionProperties_ctor_def DCHECK_def alloc_def fresh_policy_def
      footer_store_def)

end
